theory Spec2Isabelle
  imports Complex_Main "HOL-Library.AList"
begin

section \<open>JavaScript values\<close>

text \<open>
  The middleware is dynamically typed, so the model works on a universe of JavaScript
  values: the primitives, plain objects (own, enumerable data properties in creation
  order, as an association list) and two kinds of function value: the source's
  \<^verbatim>\<open>noop\<close> and a named function of the host (a log method of the logging sink, a
  test spy), which returns \<^verbatim>\<open>undefined\<close>, does not throw and does not touch the
  request context. Numbers are the reals with NaN and the two infinities; the code only
  tests and compares numbers, it never computes with them in the functions modelled.
  A string is a list of characters, one per code unit. Values are immutable: a callback
  can change the request context, which the model threads through every call, but not
  the failure object it is handed.
\<close>

datatype jsnum = Fin real | NaN | PosInf | NegInf

datatype jsval =
    Undefined
  | Null
  | Bool bool
  | Num jsnum
  | Str string
  | Obj "(string \<times> jsval) list"
  | Noop
  | HostFn string

text \<open>ToBoolean.\<close>

fun truthy :: "jsval \<Rightarrow> bool" where
  "truthy Undefined = False"
| "truthy Null = False"
| "truthy (Bool b) = b"
| "truthy (Num n) = (n \<noteq> Fin 0 \<and> n \<noteq> NaN)"
| "truthy (Str s) = (s \<noteq> [])"
| "truthy (Obj kvs) = True"
| "truthy Noop = True"
| "truthy (HostFn f) = True"

text \<open>The \<^verbatim>\<open>typeof\<close> operator.\<close>

fun typeof :: "jsval \<Rightarrow> string" where
  "typeof Undefined = ''undefined''"
| "typeof Null = ''object''"
| "typeof (Bool b) = ''boolean''"
| "typeof (Num n) = ''number''"
| "typeof (Str s) = ''string''"
| "typeof (Obj kvs) = ''object''"
| "typeof Noop = ''function''"
| "typeof (HostFn f) = ''function''"

fun callable :: "jsval \<Rightarrow> bool" where
  "callable Noop = True"
| "callable (HostFn f) = True"
| "callable v = False"

text \<open>
  Reading a property of an object: \<^verbatim>\<open>undefined\<close> when the key is absent. The source
  reads only the names \<^verbatim>\<open>message\<close>, \<^verbatim>\<open>stack\<close>, \<^verbatim>\<open>error\<close>, \<^verbatim>\<open>body\<close>,
  \<^verbatim>\<open>statusCode\<close>, \<^verbatim>\<open>status\<close>, \<^verbatim>\<open>code\<close>, \<^verbatim>\<open>state\<close>, \<^verbatim>\<open>logger\<close>,
  \<^verbatim>\<open>traceId\<close> and the log levels, none of which a prototype of a primitive, of a
  function or of a plain object supplies, so a read of a value other than an object
  gives \<^verbatim>\<open>undefined\<close>.
\<close>

definition obj_get :: "(string \<times> jsval) list \<Rightarrow> string \<Rightarrow> jsval" where
  "obj_get kvs k = (case map_of kvs k of None \<Rightarrow> Undefined | Some v \<Rightarrow> v)"

fun js_prop :: "jsval \<Rightarrow> string \<Rightarrow> jsval" where
  "js_prop (Obj kvs) k = obj_get kvs k"
| "js_prop v k = Undefined"

text \<open>
  The value thrown by the engine itself (reading a property of \<^verbatim>\<open>undefined\<close> or
  \<^verbatim>\<open>null\<close>, calling what is not a function). Its message text is the engine's and
  is left out.
\<close>

definition TypeError :: jsval where
  "TypeError = Obj [(''name'', Str ''TypeError'')]"

text \<open>A result is the value thrown (\<open>Inl\<close>) or the value returned (\<open>Inr\<close>).\<close>

type_synonym 'a outcome = "jsval + 'a"

definition get_prop :: "jsval \<Rightarrow> string \<Rightarrow> jsval outcome" where
  "get_prop v k = (if v = Undefined \<or> v = Null then Inl TypeError else Inr (js_prop v k))"

text \<open>Decimal text of an array index, for the index keys of a spread string.\<close>

fun show_nat :: "nat \<Rightarrow> string" where
  "show_nat n =
     (if n < 10 then [char_of (48 + n)]
      else show_nat (n div 10) @ [char_of (48 + n mod 10)])"

declare show_nat.simps [simp del]

text \<open>
  The properties an object spread \<^verbatim>\<open>{...v}\<close> copies: those of an object, the
  indexed characters of a string, none for \<^verbatim>\<open>undefined\<close>, \<^verbatim>\<open>null\<close>, a boolean, a
  number or a function.
\<close>

fun spread :: "jsval \<Rightarrow> (string \<times> jsval) list" where
  "spread (Obj kvs) = kvs"
| "spread (Str s) = map (\<lambda>i. (show_nat i, Str [s ! i])) [0..<length s]"
| "spread v = []"

text \<open>
  Numeric conversion for a comparison with a number. The conversion of a string, an
  object or a function is the language's; it is the parameter \<open>conv\<close>, assumed to
  return and to have no effect (no object carries a \<^verbatim>\<open>valueOf\<close> or \<^verbatim>\<open>toString\<close>
  of its own).
\<close>

type_synonym conversion = "jsval \<Rightarrow> jsnum"

fun to_number :: "conversion \<Rightarrow> jsval \<Rightarrow> jsnum" where
  "to_number conv Undefined = NaN"
| "to_number conv Null = Fin 0"
| "to_number conv (Bool b) = Fin (if b then 1 else 0)"
| "to_number conv (Num n) = n"
| "to_number conv v = conv v"

text \<open>\<open>num_lt a b\<close> is \<^verbatim>\<open>a < b\<close> on numbers; \<open>None\<close> when an operand is NaN.\<close>

fun num_lt :: "jsnum \<Rightarrow> jsnum \<Rightarrow> bool option" where
  "num_lt NaN b = None"
| "num_lt a NaN = None"
| "num_lt (Fin a) (Fin b) = Some (a < b)"
| "num_lt (Fin a) PosInf = Some True"
| "num_lt (Fin a) NegInf = Some False"
| "num_lt PosInf b = Some False"
| "num_lt NegInf NegInf = Some False"
| "num_lt NegInf b = Some True"

text \<open>\<^verbatim>\<open>v >= n\<close> and \<^verbatim>\<open>v < n\<close> for a number \<open>n\<close>: both are false on NaN.\<close>

definition js_ge :: "conversion \<Rightarrow> jsval \<Rightarrow> jsnum \<Rightarrow> bool" where
  "js_ge conv v n = (num_lt (to_number conv v) n = Some False)"

definition js_lt :: "conversion \<Rightarrow> jsval \<Rightarrow> jsnum \<Rightarrow> bool" where
  "js_lt conv v n = (num_lt (to_number conv v) n = Some True)"

section \<open>The request and the calls made on it\<close>

text \<open>
  One request: the context object \<^verbatim>\<open>ctx\<close> that all stages share and mutate, and the
  calls the modelled code has made so far. \<open>Call\<close> is the call of a callback: the
  name of the callee as the source writes it and the argument values (a context
  argument is the context as it is at the call). \<open>Apply\<close> is the call of a function
  value: the callee expression as the source writes it, the function value it evaluated
  to, and the argument values. The context is a plain object, as in the repository's
  tests: an assignment \<^verbatim>\<open>ctx.k = v\<close> stores \<open>v\<close> under \<open>k\<close> and does nothing
  else.
\<close>

datatype event = Call string "jsval list" | Apply string jsval "jsval list"

record world =
  ctx :: "(string \<times> jsval) list"
  calls :: "event list"

type_synonym 'a comp = "world \<Rightarrow> 'a outcome \<times> world"

definition ret :: "'a \<Rightarrow> 'a comp" where
  "ret x = (\<lambda>w. (Inr x, w))"

definition throw :: "jsval \<Rightarrow> 'a comp" where
  "throw e = (\<lambda>w. (Inl e, w))"

definition andThen :: "'a comp \<Rightarrow> ('a \<Rightarrow> 'b comp) \<Rightarrow> 'b comp" where
  "andThen m f = (\<lambda>w. case m w of (Inl e, w') \<Rightarrow> (Inl e, w') | (Inr x, w') \<Rightarrow> f x w')"

text \<open>\<^verbatim>\<open>try { m } catch (e) { h e }\<close>: what the handler throws is not caught.\<close>

definition tryCatch :: "'a comp \<Rightarrow> (jsval \<Rightarrow> 'a comp) \<Rightarrow> 'a comp" where
  "tryCatch m h = (\<lambda>w. case m w of (Inl e, w') \<Rightarrow> h e w' | (Inr x, w') \<Rightarrow> (Inr x, w'))"

text \<open>\<^verbatim>\<open>a || b\<close> and \<^verbatim>\<open>a && b\<close>: the right operand is evaluated only when needed.\<close>

definition orElse :: "jsval comp \<Rightarrow> jsval comp \<Rightarrow> jsval comp" where
  "orElse m n = andThen m (\<lambda>a. if truthy a then ret a else n)"

definition andAlso :: "jsval comp \<Rightarrow> jsval comp \<Rightarrow> jsval comp" where
  "andAlso m n = andThen m (\<lambda>a. if truthy a then n else ret a)"

text \<open>\<^verbatim>\<open>v.k\<close>, the context object itself, \<^verbatim>\<open>ctx.k\<close> and \<^verbatim>\<open>ctx.k = v\<close>.\<close>

definition read :: "jsval \<Rightarrow> string \<Rightarrow> jsval comp" where
  "read v k = (\<lambda>w. (get_prop v k, w))"

definition the_ctx :: "jsval comp" where
  "the_ctx = (\<lambda>w. (Inr (Obj (ctx w)), w))"

definition read_ctx :: "string \<Rightarrow> jsval comp" where
  "read_ctx k = (\<lambda>w. (Inr (obj_get (ctx w) k), w))"

definition assign :: "string \<Rightarrow> jsval \<Rightarrow> unit comp" where
  "assign k v = (\<lambda>w. (Inr (), w\<lparr>ctx := AList.update k v (ctx w)\<rparr>))"

text \<open>
  Calling a function value \<open>f\<close> written \<open>site\<close> in the source: the call is
  recorded, with \<open>f\<close>; a value that is not a function throws.
\<close>

definition call :: "string \<Rightarrow> jsval \<Rightarrow> jsval list \<Rightarrow> jsval comp" where
  "call site f args =
     (if callable f then (\<lambda>w. (Inr Undefined, w\<lparr>calls := calls w @ [Apply site f args]\<rparr>))
      else throw TypeError)"

text \<open>
  A callback handed to a stage (the continuation, a handler, an injected dependency) is
  any function of its arguments and the request that throws or returns; awaiting it
  delivers a rejection as a throw. \<open>invoke\<close> records the call and runs it. \<open>ext\<close>
  is a callback of the environment: it sees and changes the context only.
\<close>

type_synonym callback = "jsval list \<Rightarrow> jsval comp"

definition invoke :: "string \<Rightarrow> callback \<Rightarrow> jsval list \<Rightarrow> jsval comp" where
  "invoke site f args = (\<lambda>w. f args (w\<lparr>calls := calls w @ [Call site args]\<rparr>))"

type_synonym env_fn =
  "jsval list \<Rightarrow> (string \<times> jsval) list \<Rightarrow> jsval outcome \<times> (string \<times> jsval) list"

definition ext :: "env_fn \<Rightarrow> callback" where
  "ext f args = (\<lambda>w. case f args (ctx w) of (r, c) \<Rightarrow> (r, w\<lparr>ctx := c\<rparr>))"

text \<open>An argument that was not passed is \<^verbatim>\<open>undefined\<close>.\<close>

definition arg :: "nat \<Rightarrow> jsval list \<Rightarrow> jsval" where
  "arg i args = (if i < length args then args ! i else Undefined)"

section \<open>The middleware\<close>

definition disabledLogger :: jsval where
  "disabledLogger =
     Obj [(''trace'', Noop), (''debug'', Noop), (''info'', Noop), (''warn'', Noop),
          (''error'', Noop)]"


text \<open>
  \<^verbatim>\<open>setErrorResponse = (e, ctx, logger = disabledLogger) => ...\<close>; the context is the
  request's, the logger argument is \<^verbatim>\<open>undefined\<close> when it is not passed.
\<close>

definition setErrorResponse :: "jsval \<Rightarrow> jsval \<Rightarrow> jsval comp" where
  "setErrorResponse e lg =
     (let logger = (if lg = Undefined then disabledLogger else lg) in
      andThen (read logger ''error'') (\<lambda>log_error.
      andThen (read e ''message'') (\<lambda>m.
      andThen (call ''logger.error'' log_error [m]) (\<lambda>_.
      andThen (read logger ''debug'') (\<lambda>log_debug.
      andThen (read e ''stack'') (\<lambda>s.
      andThen (call ''logger.debug'' log_debug [s]) (\<lambda>_.
      andThen (orElse (orElse (orElse (read e ''error'') (read e ''body''))
                 (read e ''message'')) (ret (Str ''Internal server error''))) (\<lambda>message.
      andThen (orElse (orElse (orElse (read e ''statusCode'') (read e ''status''))
                 (read e ''code'')) (ret (Num (Fin 500)))) (\<lambda>status.
      andThen (assign ''status'' status) (\<lambda>_.
      andThen (andAlso (ret (Bool (typeof message = ''object'')))
                 (read message ''message'')) (\<lambda>nested.
      andThen (if truthy nested then read message ''message'' else ret message) (\<lambda>shown.
      andThen (assign ''body'' (Obj [(''message'', shown)])) (\<lambda>_.
      ret Undefined)))))))))))))"

text \<open>
  \<^verbatim>\<open>logError = (e, ctx, statusCode, errorCode) => ...\<close>
\<close>

definition logError :: "conversion \<Rightarrow> jsval \<Rightarrow> jsval \<Rightarrow> jsval \<Rightarrow> jsval \<Rightarrow> jsval comp" where
  "logError conv e c statusCode errorCode =
     andThen (read c ''state'') (\<lambda>state.
     andThen (read state ''logger'') (\<lambda>logger.
     andThen (read logger ''error'') (\<lambda>log_error.
     andThen (read e ''message'') (\<lambda>m.
     andThen (call ''logger.error'' log_error
                [Obj [(''errorCode'', errorCode), (''statusCode'', statusCode)], m]) (\<lambda>_.
     if js_ge conv statusCode (Fin 500)
     then andThen (read logger ''error'') (\<lambda>log_error.
          andThen (read e ''stack'') (\<lambda>s.
          andThen (call ''logger.error'' log_error [s]) (\<lambda>_. ret Undefined)))
     else ret Undefined)))))"

text \<open>
  \<^verbatim>\<open>errorHandler = (dependencies = {}) => { const { getTraceId = ..., instrumentation
  = logError } = dependencies; return async (ctx, next) => ... }\<close>: a dependency that is
  absent (\<open>None\<close>) takes its default.
\<close>

record dependencies =
  getTraceId :: "callback option"
  instrumentation :: "callback option"

definition or_default :: "'a option \<Rightarrow> 'a \<Rightarrow> 'a" where
  "or_default given dflt = (case given of None \<Rightarrow> dflt | Some f \<Rightarrow> f)"

text \<open>The default \<^verbatim>\<open>ctx => ctx.state.traceId\<close>.\<close>

definition default_getTraceId :: callback where
  "default_getTraceId args =
     andThen (read (arg 0 args) ''state'') (\<lambda>state. read state ''traceId'')"

text \<open>\<^verbatim>\<open>logError\<close> as the default instrumentation, applied to an argument list.\<close>

definition logError_callback :: "conversion \<Rightarrow> callback" where
  "logError_callback conv args =
     logError conv (arg 0 args) (arg 1 args) (arg 2 args) (arg 3 args)"

definition errorHandler :: "conversion \<Rightarrow> dependencies \<Rightarrow> callback \<Rightarrow> jsval comp" where
  "errorHandler conv deps =
     (let getTraceId' = or_default (getTraceId deps) default_getTraceId;
          instrumentation' = or_default (instrumentation deps) (logError_callback conv)
      in (\<lambda>next.
        tryCatch (andThen (invoke ''next'' next []) (\<lambda>_. ret Undefined))
          (\<lambda>e.
            andThen (orElse (read e ''message'') (ret (Str ''Internal server error''))) (\<lambda>message.
            andThen (orElse (read e ''statusCode'') (ret (Num (Fin 500)))) (\<lambda>status.
            andThen (orElse (read e ''code'') (ret (Num (Fin 0)))) (\<lambda>errorCode.
            andThen the_ctx (\<lambda>c.
            andThen (invoke ''getTraceId'' getTraceId' [c]) (\<lambda>traceId.
            andThen (assign ''status'' status) (\<lambda>_.
            andThen (read e ''body'') (\<lambda>b.
            andThen (assign ''body''
                       (Obj (AList.update ''traceId'' traceId
                            (AList.update ''errorCode'' errorCode
                            (AList.update ''message'' message (spread b)))))) (\<lambda>_.
            andThen the_ctx (\<lambda>c.
            andThen (invoke ''instrumentation'' instrumentation' [e, c, status, errorCode]) (\<lambda>_.
            ret Undefined)))))))))))))"

text \<open>
  The stage \<^verbatim>\<open>async (ctx, next) => ...\<close> that \<^verbatim>\<open>requestProfiler\<close> returns, for
  the four callbacks its destructuring has resolved. (The default callbacks read the
  clock and format a duration; the stage treats them like any other callback.) The
  stage awaits the continuation only: for the four callbacks a throw is a synchronous
  one, and a callback that returns a promise, even a rejected one, has returned.
\<close>

record profiler_callbacks =
  requestStarted :: callback
  requestFinished :: callback
  requestSucceeded :: callback
  requestFailed :: callback

definition requestProfiler :: "conversion \<Rightarrow> profiler_callbacks \<Rightarrow> callback \<Rightarrow> jsval comp" where
  "requestProfiler conv cbs = (\<lambda>next.
     andThen the_ctx (\<lambda>c.
     andThen (invoke ''requestStarted'' (requestStarted cbs) [c]) (\<lambda>_.
     andThen (invoke ''next'' next []) (\<lambda>_.
     andThen the_ctx (\<lambda>c.
     andThen (invoke ''requestFinished'' (requestFinished cbs) [c]) (\<lambda>_.
     andThen (read_ctx ''status'') (\<lambda>status.
     andThen the_ctx (\<lambda>c.
     andThen (if js_ge conv status (Fin 400)
              then invoke ''requestFailed'' (requestFailed cbs) [c]
              else invoke ''requestSucceeded'' (requestSucceeded cbs) [c]) (\<lambda>_.
     ret Undefined)))))))))"

section \<open>Vocabulary of the specification\<close>

text \<open>The first truthy of \<open>vs\<close>, else \<open>d\<close>.\<close>

fun first_truthy :: "jsval list \<Rightarrow> jsval \<Rightarrow> jsval" where
  "first_truthy [] d = d"
| "first_truthy (v # vs) d = (if truthy v then v else first_truthy vs d)"

text \<open>
  A logger argument \<^verbatim>\<open>setErrorResponse\<close> can log with: none (the disabled logger takes
  its place), or a value whose \<^verbatim>\<open>error\<close> and \<^verbatim>\<open>debug\<close> are functions.
\<close>

definition usable_logger :: "jsval \<Rightarrow> bool" where
  "usable_logger lg =
     (lg = Undefined \<or> (callable (js_prop lg ''error'') \<and> callable (js_prop lg ''debug'')))"

section \<open>Fixtures\<close>

text \<open>
  The doubles and values of the repository's tests: a callback that resolves with a
  value, one that rejects with a failure, one that marks the context with a key to show
  that it ran, the mock logger and context of
  \<^verbatim>\<open>test/middleware.js\<close>, and sample failures. \<open>nan_conversion\<close> is a numeric
  conversion for inputs in which no string, object or function is ever compared.
\<close>

definition resolves :: "jsval \<Rightarrow> env_fn" where
  "resolves v args c = (Inr v, c)"

definition rejects :: "jsval \<Rightarrow> env_fn" where
  "rejects e args c = (Inl e, c)"

definition mockLogger :: jsval where
  "mockLogger =
     Obj [(''trace'', HostFn ''trace''), (''debug'', HostFn ''debug''),
          (''info'', HostFn ''info''), (''warn'', HostFn ''warn''),
          (''error'', HostFn ''error'')]"

definition mockCtx :: "(string \<times> jsval) list" where
  "mockCtx = [(''state'', Obj [(''logger'', mockLogger), (''traceId'', Str ''mock-trace-id'')])]"

definition marks :: "string \<Rightarrow> env_fn" where
  "marks k args c = (Inr Undefined, AList.update k (Bool True) c)"

definition nan_conversion :: conversion where
  "nan_conversion v = NaN"

definition boom :: jsval where
  "boom = Obj [(''message'', Str ''boom''), (''statusCode'', Num (Fin 403)),
               (''code'', Num (Fin 7)),
               (''body'', Obj [(''prop'', Str ''additional prop''),
                               (''message'', Str ''shadowed'')])]"

definition not_found :: jsval where
  "not_found = Obj [(''message'', Str ''no such thing''), (''status'', Num (Fin 404)),
                    (''stack'', Str ''error stack trace string'')]"

section \<open>Running the model\<close>

lemma andThen_ret [simp]: "andThen (ret x) f = f x"
  by (simp add: andThen_def ret_def)

lemma andThen_throw [simp]: "andThen (throw e) f = throw e"
  by (simp add: andThen_def throw_def)

lemma andThen_assoc [simp]: "andThen (andThen m f) g = andThen m (\<lambda>x. andThen (f x) g)"
  by (auto simp add: andThen_def fun_eq_iff split: prod.splits sum.splits)

lemma andThen_apply:
  "andThen m f w = (case m w of (Inl e, w') \<Rightarrow> (Inl e, w') | (Inr x, w') \<Rightarrow> f x w')"
  by (simp add: andThen_def)

lemma andThen_ret_snd: "snd (andThen m (\<lambda>_. ret x) w) = snd (m w)"
  by (simp add: andThen_def ret_def split: prod.splits sum.splits)

lemma ret_apply: "ret x w = (Inr x, w)"
  by (simp add: ret_def)

lemma orElse_ret [simp]: "orElse (ret a) n = (if truthy a then ret a else n)"
  by (simp add: orElse_def)

lemma andAlso_ret [simp]: "andAlso (ret a) n = (if truthy a then n else ret a)"
  by (simp add: andAlso_def)

lemma read_object [simp]: "e \<noteq> Undefined \<Longrightarrow> e \<noteq> Null \<Longrightarrow> read e k = ret (js_prop e k)"
  by (simp add: read_def ret_def get_prop_def)

lemma read_Obj [simp]: "read (Obj kvs) k = ret (obj_get kvs k)"
  by (simp add: read_def ret_def get_prop_def)

lemma read_nullish [simp]:
  "read Undefined k = throw TypeError" "read Null k = throw TypeError"
  by (simp_all add: read_def throw_def get_prop_def)

lemma the_ctx_bind [simp]: "andThen the_ctx f w = f (Obj (ctx w)) w"
  by (simp add: andThen_def the_ctx_def)

lemma read_ctx_bind [simp]: "andThen (read_ctx k) f w = f (obj_get (ctx w) k) w"
  by (simp add: andThen_def read_ctx_def)

lemma andThen_assign [simp]:
  "andThen (assign k v) f w = f () (w\<lparr>ctx := AList.update k v (ctx w)\<rparr>)"
  by (simp add: andThen_def assign_def)

lemma andThen_call [simp]:
  "callable g \<Longrightarrow>
   andThen (call site g args) f w = f Undefined (w\<lparr>calls := calls w @ [Apply site g args]\<rparr>)"
  by (simp add: andThen_def call_def)

lemma invoke_ext:
  "invoke site (ext f) args w =
     (case f args (ctx w) of (r, c) \<Rightarrow> (r, \<lparr>ctx = c, calls = calls w @ [Call site args]\<rparr>))"
  by (simp add: invoke_def ext_def split: prod.splits)

lemma obj_get_Nil [simp]: "obj_get [] k = Undefined"
  by (simp add: obj_get_def)

lemma obj_get_Cons [simp]:
  "obj_get ((k', v) # kvs) k = (if k = k' then v else obj_get kvs k)"
  by (simp add: obj_get_def)

lemma obj_get_update [simp]:
  "obj_get (AList.update k v kvs) k' = (if k' = k then v else obj_get kvs k')"
  by (simp add: obj_get_def update_conv')

lemma typeof_undefined [simp]: "(typeof v = ''undefined'') = (v = Undefined)"
  by (cases v) auto

lemma callable_not_nullish: "callable (js_prop lg k) \<Longrightarrow> lg \<noteq> Undefined \<and> lg \<noteq> Null"
  by (cases lg) auto

lemma truthy_not_nullish: "truthy v \<Longrightarrow> v \<noteq> Undefined \<and> v \<noteq> Null"
  by (cases v) auto

lemma js_prop_defined: "js_prop v k \<noteq> Undefined \<Longrightarrow> v \<noteq> Undefined \<and> v \<noteq> Null"
  by (cases v) auto

lemma js_ge_not_lt: "js_lt conv v n \<Longrightarrow> \<not> js_ge conv v n"
  by (simp add: js_lt_def js_ge_def)

lemma or_chain1:
  "e \<noteq> Undefined \<Longrightarrow> e \<noteq> Null \<Longrightarrow>
   orElse (read e a) (ret d) = ret (first_truthy [js_prop e a] d)"
  by (simp add: orElse_def)

lemma or_chain3:
  "e \<noteq> Undefined \<Longrightarrow> e \<noteq> Null \<Longrightarrow>
   orElse (orElse (orElse (read e a) (read e b)) (read e c)) (ret d)
     = ret (first_truthy [js_prop e a, js_prop e b, js_prop e c] d)"
  by (simp add: orElse_def)

section \<open>The standalone formatter \<^verbatim>\<open>setErrorResponse\<close>\<close>

lemma setErrorResponse_run:
  assumes "e \<noteq> Undefined" "e \<noteq> Null" "usable_logger lg"
  shows "setErrorResponse e lg w =
    (let message = first_truthy [js_prop e ''error'', js_prop e ''body'', js_prop e ''message'']
                     (Str ''Internal server error'');
         status = first_truthy [js_prop e ''statusCode'', js_prop e ''status'', js_prop e ''code'']
                     (Num (Fin 500));
         shown = (if typeof message = ''object'' \<and> truthy (js_prop message ''message'')
                  then js_prop message ''message'' else message)
     in (Inr Undefined,
         \<lparr>ctx = AList.update ''body'' (Obj [(''message'', shown)])
                  (AList.update ''status'' status (ctx w)),
          calls = calls w @
            [Apply ''logger.error''
               (js_prop (if lg = Undefined then disabledLogger else lg) ''error'')
               [js_prop e ''message''],
             Apply ''logger.debug''
               (js_prop (if lg = Undefined then disabledLogger else lg) ''debug'')
               [js_prop e ''stack'']]\<rparr>))"
proof -
  let ?message = "first_truthy [js_prop e ''error'', js_prop e ''body'', js_prop e ''message'']
                     (Str ''Internal server error'')"
  have t: "truthy ?message" by simp
  have nn: "?message \<noteq> Undefined" "?message \<noteq> Null"
    using truthy_not_nullish[OF t] by blast+
  show ?thesis
  proof (cases "lg = Undefined")
    case True
    then show ?thesis
      unfolding setErrorResponse_def Let_def or_chain3[OF assms(1,2)]
      using assms(1,2) nn
      by (simp add: ret_apply disabledLogger_def del: first_truthy.simps)
  next
    case False
    with assms(3) have c: "callable (js_prop lg ''error'')" "callable (js_prop lg ''debug'')"
      by (simp_all add: usable_logger_def)
    from callable_not_nullish[OF c(1)] have l: "lg \<noteq> Undefined" "lg \<noteq> Null" by blast+
    show ?thesis
      unfolding setErrorResponse_def Let_def or_chain3[OF assms(1,2)]
      using assms(1,2) nn c l
      by (simp add: ret_apply del: first_truthy.simps)
  qed
qed

text \<open>
  What the formatter does for every failure that has properties: it returns, the body
  it sets has \<^verbatim>\<open>message\<close> as its only key, the message is resolved as the first
  truthy of \<^verbatim>\<open>e.error\<close>, \<^verbatim>\<open>e.body\<close>, \<^verbatim>\<open>e.message\<close>, else the default text, and a
  non-empty string found under the resolved message's own \<^verbatim>\<open>message\<close> replaces it.
\<close>

theorem setErrorResponse_body:
  assumes "e \<noteq> Undefined" and "e \<noteq> Null" and "usable_logger lg"
  shows "\<exists>shown. fst (setErrorResponse e lg w) = Inr Undefined
          \<and> obj_get (ctx (snd (setErrorResponse e lg w))) ''body'' = Obj [(''message'', shown)]
          \<and> (let message = first_truthy
                    [js_prop e ''error'', js_prop e ''body'', js_prop e ''message'']
                    (Str ''Internal server error'')
              in (shown = message \<or> shown = js_prop message ''message'')
               \<and> (typeof message \<noteq> ''object'' \<longrightarrow> shown = message)
               \<and> (\<forall>s. typeof message = ''object'' \<and> js_prop message ''message'' = Str s \<and> s \<noteq> []
                      \<longrightarrow> shown = Str s))"
  using setErrorResponse_run[OF assms, of w]
  by (auto simp add: Let_def simp del: first_truthy.simps)

text \<open>
  The theorem at a failure whose \<^verbatim>\<open>body\<close> nests a message, with no logger passed:
  the body's message is the nested text.
\<close>

theorem setErrorResponse_body_witness:
  "Obj [(''body'', Obj [(''message'', Str ''upstream said no'')]), (''message'', Str ''outer'')]
     \<noteq> Undefined
   \<and> Obj [(''body'', Obj [(''message'', Str ''upstream said no'')]), (''message'', Str ''outer'')]
     \<noteq> Null
   \<and> usable_logger Undefined
   \<and> obj_get (ctx (snd (setErrorResponse
        (Obj [(''body'', Obj [(''message'', Str ''upstream said no'')]),
              (''message'', Str ''outer'')])
        Undefined \<lparr>ctx = [], calls = []\<rparr>))) ''body''
      = Obj [(''message'', Str ''upstream said no'')]"
proof -
  let ?e = "Obj [(''body'', Obj [(''message'', Str ''upstream said no'')]),
                 (''message'', Str ''outer'')]"
  have h1: "?e \<noteq> Undefined" and h2: "?e \<noteq> Null" by simp_all
  have h3: "usable_logger Undefined" by (simp add: usable_logger_def)
  from setErrorResponse_body[OF h1 h2 h3, of "\<lparr>ctx = [], calls = []\<rparr>"] h3
  show ?thesis by (auto simp add: Let_def)
qed

text \<open>
  C4 (the code departs from the claim). The claim: the message is resolved as the first
  truthy of \<^verbatim>\<open>e.error\<close>, \<^verbatim>\<open>e.body\<close>, \<^verbatim>\<open>e.message\<close>, else the default; the body has the
  single key \<^verbatim>\<open>message\<close>; and if the resolved message has a \<^verbatim>\<open>.message\<close> string
  field, the body's message is only that inner string, never the outer object. For the
  failure \<^verbatim>\<open>{error: {message: ''}}\<close> the resolved message is the object
  \<^verbatim>\<open>{message: ''}\<close>, whose \<^verbatim>\<open>message\<close> field is the empty string; the source tests
  the field for truthiness, so the body's message is the outer object and the
  \<^verbatim>\<open>message\<close> property stays nested, which the source's own comment (prevent
  nesting of the message prop) says it prevents.
\<close>

theorem setErrorResponse_empty_inner_message:
  "js_prop (Obj [(''message'', Str [])]) ''message'' = Str []
   \<and> first_truthy [js_prop (Obj [(''error'', Obj [(''message'', Str [])])]) ''error'',
                    js_prop (Obj [(''error'', Obj [(''message'', Str [])])]) ''body'',
                    js_prop (Obj [(''error'', Obj [(''message'', Str [])])]) ''message'']
        (Str ''Internal server error'') = Obj [(''message'', Str [])]
   \<and> obj_get (ctx (snd (setErrorResponse
        (Obj [(''error'', Obj [(''message'', Str [])])]) Undefined
        \<lparr>ctx = [], calls = []\<rparr>))) ''body''
      = Obj [(''message'', Obj [(''message'', Str [])])]"
  by (simp add: setErrorResponse_run usable_logger_def Let_def)

text \<open>
  C2 (amended). The claim that the body's message is never an object fails: an object
  with no \<^verbatim>\<open>message\<close> of its own is passed through. What holds, for every failure
  that has properties and every usable logger: the body's message is the resolved
  message with one level of \<^verbatim>\<open>message\<close> nesting removed. If the resolved message is
  not an object, it appears as it is and the body's message is not an object. If it is
  an object whose \<^verbatim>\<open>message\<close> field is truthy, only that nested field appears. If it
  is an object with no \<^verbatim>\<open>message\<close> field, the object itself appears, and the body's
  message is an object.
\<close>

theorem setErrorResponse_message_unwrapped:
  assumes "e \<noteq> Undefined" and "e \<noteq> Null" and "usable_logger lg"
  shows "let message = first_truthy
                 [js_prop e ''error'', js_prop e ''body'', js_prop e ''message'']
                 (Str ''Internal server error'');
             inner = js_prop message ''message'';
             shown = js_prop (obj_get (ctx (snd (setErrorResponse e lg w))) ''body'') ''message''
         in (typeof message \<noteq> ''object'' \<longrightarrow> shown = message \<and> typeof shown \<noteq> ''object'')
          \<and> (typeof message = ''object'' \<and> truthy inner \<longrightarrow> shown = inner)
          \<and> (typeof message = ''object'' \<and> inner = Undefined \<longrightarrow>
                shown = message \<and> typeof shown = ''object'')"
  using setErrorResponse_run[OF assms, of w]
  by (auto simp add: Let_def simp del: first_truthy.simps)

text \<open>
  The theorem at the nested failure \<^verbatim>\<open>{error: {message: 'inner', code: 7}}\<close> with
  the mock logger: the body's message is the inner text.
\<close>

theorem setErrorResponse_message_unwrapped_witness:
  "Obj [(''error'', Obj [(''message'', Str ''inner''), (''code'', Num (Fin 7))])] \<noteq> Undefined
   \<and> Obj [(''error'', Obj [(''message'', Str ''inner''), (''code'', Num (Fin 7))])] \<noteq> Null
   \<and> usable_logger mockLogger
   \<and> js_prop (obj_get (ctx (snd (setErrorResponse
          (Obj [(''error'', Obj [(''message'', Str ''inner''), (''code'', Num (Fin 7))])])
          mockLogger \<lparr>ctx = [], calls = []\<rparr>))) ''body'') ''message'' = Str ''inner''"
proof -
  let ?e = "Obj [(''error'', Obj [(''message'', Str ''inner''), (''code'', Num (Fin 7))])]"
  have h1: "?e \<noteq> Undefined" and h2: "?e \<noteq> Null" by simp_all
  have h3: "usable_logger mockLogger"
    by (simp add: usable_logger_def mockLogger_def)
  from setErrorResponse_message_unwrapped[OF h1 h2 h3, of "\<lparr>ctx = [], calls = []\<rparr>"] h3
  show ?thesis by (simp add: Let_def)
qed

text \<open>
  The claim as stated fails at the failure \<^verbatim>\<open>{body: {detail: 'x'}}\<close>: the body's
  message is the object \<^verbatim>\<open>{detail: 'x'}\<close>.
\<close>

theorem setErrorResponse_message_object_counterexample:
  "typeof (js_prop (obj_get (ctx (snd (setErrorResponse
       (Obj [(''body'', Obj [(''detail'', Str ''x'')])]) Undefined
       \<lparr>ctx = [], calls = []\<rparr>))) ''body'') ''message'') = ''object''"
  by (simp add: setErrorResponse_run usable_logger_def Let_def)

section \<open>The default instrumentation \<^verbatim>\<open>logError\<close>\<close>

lemma logError_run:
  assumes "e \<noteq> Undefined" "e \<noteq> Null"
    and "callable (js_prop (js_prop (js_prop c ''state'') ''logger'') ''error'')"
  shows "logError conv e c statusCode errorCode w =
    (Inr Undefined,
     w\<lparr>calls := calls w @
        Apply ''logger.error'' (js_prop (js_prop (js_prop c ''state'') ''logger'') ''error'')
          [Obj [(''errorCode'', errorCode), (''statusCode'', statusCode)], js_prop e ''message'']
        # (if js_ge conv statusCode (Fin 500)
           then [Apply ''logger.error''
                   (js_prop (js_prop (js_prop c ''state'') ''logger'') ''error'')
                   [js_prop e ''stack'']]
           else [])\<rparr>)"
proof -
  let ?state = "js_prop c ''state''" and ?logger = "js_prop (js_prop c ''state'') ''logger''"
  have l: "?logger \<noteq> Undefined" "?logger \<noteq> Null"
    using callable_not_nullish[OF assms(3)] by blast+
  have s: "?state \<noteq> Undefined" "?state \<noteq> Null"
    using js_prop_defined[OF l(1)] by blast+
  have c: "c \<noteq> Undefined" "c \<noteq> Null"
    using js_prop_defined[OF s(1)] by blast+
  show ?thesis
    unfolding logError_def
    using assms c s l by (simp add: ret_apply)
qed

lemma logError_keeps_ctx: "ctx (snd (logError conv e c statusCode errorCode w)) = ctx w"
  by (simp add: logError_def andThen_def read_def call_def throw_def ret_def
      split: sum.splits prod.splits)

text \<open>
  C6. For every failure that has properties, with a context whose
  \<^verbatim>\<open>state.logger.error\<close> is a function: when \<^verbatim>\<open>statusCode < 500\<close>, \<^verbatim>\<open>logError\<close>
  makes exactly one call, of the function that is \<^verbatim>\<open>ctx.state.logger.error\<close>, with
  \<^verbatim>\<open>({errorCode, statusCode}, e.message)\<close>; when \<^verbatim>\<open>statusCode >= 500\<close> it makes
  exactly two, that one and then one of the same function with \<^verbatim>\<open>(e.stack)\<close>.
  Nothing else is called, \<^verbatim>\<open>logError\<close> returns \<^verbatim>\<open>undefined\<close> and the context
  is unchanged.
\<close>

theorem logError_calls:
  assumes "e \<noteq> Undefined" and "e \<noteq> Null"
    and "callable (js_prop (js_prop (js_prop c ''state'') ''logger'') ''error'')"
  shows "let log_error = js_prop (js_prop (js_prop c ''state'') ''logger'') ''error'';
             first_call = Apply ''logger.error'' log_error
                 [Obj [(''errorCode'', errorCode), (''statusCode'', statusCode)],
                  js_prop e ''message''];
             second_call = Apply ''logger.error'' log_error [js_prop e ''stack'']
         in (js_lt conv statusCode (Fin 500) \<longrightarrow>
               logError conv e c statusCode errorCode w =
                 (Inr Undefined, w\<lparr>calls := calls w @ [first_call]\<rparr>))
          \<and> (js_ge conv statusCode (Fin 500) \<longrightarrow>
               logError conv e c statusCode errorCode w =
                 (Inr Undefined, w\<lparr>calls := calls w @ [first_call, second_call]\<rparr>))"
  using logError_run[OF assms, of conv statusCode errorCode w]
    js_ge_not_lt[of conv statusCode "Fin 500"]
  by (auto simp add: Let_def)

text \<open>
  The theorem at the tests' inputs: a failure with a stack, the mock context, error
  code 456, once with status 123 (one call) and once with status 501 (two calls). The
  function called is the mock logger's \<^verbatim>\<open>error\<close>.
\<close>

theorem logError_calls_witness:
  "not_found \<noteq> Undefined \<and> not_found \<noteq> Null
   \<and> callable (js_prop (js_prop (js_prop (Obj mockCtx) ''state'') ''logger'') ''error'')
   \<and> js_lt nan_conversion (Num (Fin 123)) (Fin 500)
   \<and> logError nan_conversion not_found (Obj mockCtx) (Num (Fin 123)) (Num (Fin 456))
        \<lparr>ctx = mockCtx, calls = []\<rparr>
      = (Inr Undefined,
         \<lparr>ctx = mockCtx,
          calls = [Apply ''logger.error'' (HostFn ''error'')
                     [Obj [(''errorCode'', Num (Fin 456)), (''statusCode'', Num (Fin 123))],
                      Str ''no such thing'']]\<rparr>)
   \<and> js_ge nan_conversion (Num (Fin 501)) (Fin 500)
   \<and> logError nan_conversion not_found (Obj mockCtx) (Num (Fin 501)) (Num (Fin 456))
        \<lparr>ctx = mockCtx, calls = []\<rparr>
      = (Inr Undefined,
         \<lparr>ctx = mockCtx,
          calls = [Apply ''logger.error'' (HostFn ''error'')
                     [Obj [(''errorCode'', Num (Fin 456)), (''statusCode'', Num (Fin 501))],
                      Str ''no such thing''],
                   Apply ''logger.error'' (HostFn ''error'')
                     [Str ''error stack trace string'']]\<rparr>)"
proof -
  have h1: "not_found \<noteq> Undefined" and h2: "not_found \<noteq> Null"
    by (simp_all add: not_found_def)
  have h3: "callable (js_prop (js_prop (js_prop (Obj mockCtx) ''state'') ''logger'') ''error'')"
    by (simp add: mockCtx_def mockLogger_def)
  have lo: "js_lt nan_conversion (Num (Fin 123)) (Fin 500)"
    and hi: "js_ge nan_conversion (Num (Fin 501)) (Fin 500)"
    by (simp_all add: js_lt_def js_ge_def)
  have f: "js_prop (js_prop (js_prop (Obj mockCtx) ''state'') ''logger'') ''error''
             = HostFn ''error''"
    by (simp add: mockCtx_def mockLogger_def)
  note a = logError_calls[OF h1 h2 h3, where conv=nan_conversion
             and statusCode="Num (Fin 123)" and errorCode="Num (Fin 456)"
             and w="\<lparr>ctx = mockCtx, calls = []\<rparr>", unfolded Let_def, THEN conjunct1,
             rule_format, OF lo]
  note b = logError_calls[OF h1 h2 h3, where conv=nan_conversion
             and statusCode="Num (Fin 501)" and errorCode="Num (Fin 456)"
             and w="\<lparr>ctx = mockCtx, calls = []\<rparr>", unfolded Let_def, THEN conjunct2,
             rule_format, OF hi]
  from h1 h2 h3 lo hi a b f show ?thesis by (simp add: not_found_def)
qed

section \<open>The error stage \<^verbatim>\<open>errorHandler\<close>\<close>

text \<open>
  The catch block, once: the continuation throws \<open>e\<close>, \<open>e\<close> has properties, and
  \<^verbatim>\<open>getTraceId\<close> returns. The stage then sets status and body and goes on as the
  instrumentation does.
\<close>

lemma errorHandler_catch:
  assumes "invoke ''next'' next [] w = (Inl e, w1)"
    and "e \<noteq> Undefined" "e \<noteq> Null"
    and "invoke ''getTraceId'' (or_default (getTraceId deps) default_getTraceId)
           [Obj (ctx w1)] w1 = (Inr traceId, w2)"
  shows "errorHandler conv deps next w =
    (let status = first_truthy [js_prop e ''statusCode''] (Num (Fin 500));
         errorCode = first_truthy [js_prop e ''code''] (Num (Fin 0));
         message = first_truthy [js_prop e ''message''] (Str ''Internal server error'');
         body = AList.update ''traceId'' traceId (AList.update ''errorCode'' errorCode
                  (AList.update ''message'' message (spread (js_prop e ''body''))));
         c = AList.update ''body'' (Obj body) (AList.update ''status'' status (ctx w2))
     in andThen
          (invoke ''instrumentation''
             (or_default (instrumentation deps) (logError_callback conv))
             [e, Obj c, status, errorCode])
          (\<lambda>_. ret Undefined) (w2\<lparr>ctx := c\<rparr>))"
  unfolding errorHandler_def Let_def
  using assms
  by (simp add: tryCatch_def andThen_apply[of "invoke ''next'' next []"]
        andThen_apply[of "invoke ''getTraceId'' _ _"])

lemma default_getTraceId_result:
  assumes "invoke ''getTraceId'' default_getTraceId [Obj c] w = (Inr traceId, w')"
  shows "traceId = js_prop (obj_get c ''state'') ''traceId''"
  using assms
  by (simp add: invoke_def default_getTraceId_def arg_def andThen_def read_def get_prop_def
      split: if_splits)

text \<open>
  C1. Let the continuation, invoked by the stage, throw a failure \<open>e\<close> that has
  properties, and let \<^verbatim>\<open>getTraceId(ctx)\<close> (the injected one, or the default) return
  \<open>traceId\<close>. Then the stage sets \<^verbatim>\<open>ctx.status\<close> to \<^verbatim>\<open>e.statusCode\<close> if truthy,
  else 500, and \<^verbatim>\<open>ctx.body\<close> to an object in which \<^verbatim>\<open>message\<close> is
  \<^verbatim>\<open>e.message\<close> if truthy, else the default text, \<^verbatim>\<open>errorCode\<close> is \<^verbatim>\<open>e.code\<close> if
  truthy, else 0, \<^verbatim>\<open>traceId\<close> is \<open>traceId\<close>, and every other key is as the spread
  of \<^verbatim>\<open>e.body\<close> gives it: the three fields win every collision, and the keys are
  those of the spread and the three. With status and body set it invokes the
  instrumentation with \<^verbatim>\<open>(e, ctx, status, errorCode)\<close> and goes on as that does.
  With the default \<^verbatim>\<open>getTraceId\<close>, \<open>traceId\<close> is \<^verbatim>\<open>ctx.state.traceId\<close>.
\<close>

theorem errorHandler_envelope:
  assumes "invoke ''next'' next [] w = (Inl e, w1)"
    and "e \<noteq> Undefined" and "e \<noteq> Null"
    and "invoke ''getTraceId'' (or_default (getTraceId deps) default_getTraceId)
           [Obj (ctx w1)] w1 = (Inr traceId, w2)"
  shows "let status = (if truthy (js_prop e ''statusCode'') then js_prop e ''statusCode''
                       else Num (Fin 500));
             message = (if truthy (js_prop e ''message'') then js_prop e ''message''
                        else Str ''Internal server error'');
             errorCode = (if truthy (js_prop e ''code'') then js_prop e ''code''
                          else Num (Fin 0));
             extra = spread (js_prop e ''body'');
             body = AList.update ''traceId'' traceId (AList.update ''errorCode'' errorCode
                      (AList.update ''message'' message extra));
             c = AList.update ''body'' (Obj body) (AList.update ''status'' status (ctx w2))
         in errorHandler conv deps next w =
              andThen
                (invoke ''instrumentation''
                   (or_default (instrumentation deps) (logError_callback conv))
                   [e, Obj c, status, errorCode])
                (\<lambda>_. ret Undefined) (w2\<lparr>ctx := c\<rparr>)
          \<and> obj_get c ''status'' = status
          \<and> obj_get c ''body'' = Obj body
          \<and> obj_get body ''message'' = message
          \<and> obj_get body ''errorCode'' = errorCode
          \<and> obj_get body ''traceId'' = traceId
          \<and> (\<forall>k. k \<notin> {''message'', ''errorCode'', ''traceId''} \<longrightarrow>
                 obj_get body k = obj_get extra k)
          \<and> fst ` set body = fst ` set extra \<union> {''message'', ''errorCode'', ''traceId''}
          \<and> (getTraceId deps = None \<longrightarrow>
                 traceId = js_prop (obj_get (ctx w1) ''state'') ''traceId'')"
proof -
  have d: "getTraceId deps = None \<longrightarrow>
             traceId = js_prop (obj_get (ctx w1) ''state'') ''traceId''"
    using assms(4) default_getTraceId_result[of "ctx w1" w1 traceId w2]
    by (auto simp add: or_default_def)
  show ?thesis
    using errorHandler_catch[OF assms, of conv] d
    by (auto simp add: Let_def dom_update)
qed

text \<open>
  The theorem at the stage with no dependencies injected, the mock context, and the
  failure \<open>boom\<close> (status code 403, code 7, and a body that carries a \<^verbatim>\<open>message\<close>
  of its own): status 403, and the body keeps \<^verbatim>\<open>prop\<close> while \<^verbatim>\<open>message\<close> is the
  failure's.
\<close>

theorem errorHandler_envelope_witness:
  "invoke ''next'' (ext (rejects boom)) [] \<lparr>ctx = mockCtx, calls = []\<rparr>
     = (Inl boom, \<lparr>ctx = mockCtx, calls = [Call ''next'' []]\<rparr>)
   \<and> boom \<noteq> Undefined \<and> boom \<noteq> Null
   \<and> invoke ''getTraceId''
        (or_default (getTraceId \<lparr>getTraceId = None, instrumentation = None\<rparr>) default_getTraceId)
        [Obj mockCtx] \<lparr>ctx = mockCtx, calls = [Call ''next'' []]\<rparr>
     = (Inr (Str ''mock-trace-id''),
        \<lparr>ctx = mockCtx, calls = [Call ''next'' [], Call ''getTraceId'' [Obj mockCtx]]\<rparr>)
   \<and> fst (errorHandler nan_conversion \<lparr>getTraceId = None, instrumentation = None\<rparr>
          (ext (rejects boom)) \<lparr>ctx = mockCtx, calls = []\<rparr>) = Inr Undefined
   \<and> ctx (snd (errorHandler nan_conversion \<lparr>getTraceId = None, instrumentation = None\<rparr>
          (ext (rejects boom)) \<lparr>ctx = mockCtx, calls = []\<rparr>))
     = mockCtx @
       [(''status'', Num (Fin 403)),
        (''body'', Obj [(''prop'', Str ''additional prop''), (''message'', Str ''boom''),
                        (''errorCode'', Num (Fin 7)), (''traceId'', Str ''mock-trace-id'')])]"
proof -
  have h1: "invoke ''next'' (ext (rejects boom)) [] \<lparr>ctx = mockCtx, calls = []\<rparr>
              = (Inl boom, \<lparr>ctx = mockCtx, calls = [Call ''next'' []]\<rparr>)"
    by (simp add: invoke_ext rejects_def)
  have h2: "boom \<noteq> Undefined" and h3: "boom \<noteq> Null"
    by (simp_all add: boom_def)
  have h4: "invoke ''getTraceId''
        (or_default (getTraceId \<lparr>getTraceId = None, instrumentation = None\<rparr>) default_getTraceId)
        [Obj (ctx \<lparr>ctx = mockCtx, calls = [Call ''next'' []]\<rparr>)]
        \<lparr>ctx = mockCtx, calls = [Call ''next'' []]\<rparr>
     = (Inr (Str ''mock-trace-id''),
        \<lparr>ctx = mockCtx, calls = [Call ''next'' [], Call ''getTraceId'' [Obj mockCtx]]\<rparr>)"
    by (simp add: invoke_def or_default_def default_getTraceId_def arg_def andThen_apply
        read_def get_prop_def mockCtx_def)
  note run = errorHandler_envelope[OF h1 h2 h3 h4, of nan_conversion, unfolded Let_def,
               THEN conjunct1]
  have "errorHandler nan_conversion \<lparr>getTraceId = None, instrumentation = None\<rparr>
          (ext (rejects boom)) \<lparr>ctx = mockCtx, calls = []\<rparr>
        = (Inr Undefined,
           \<lparr>ctx = mockCtx @
              [(''status'', Num (Fin 403)),
               (''body'', Obj [(''prop'', Str ''additional prop''), (''message'', Str ''boom''),
                               (''errorCode'', Num (Fin 7)), (''traceId'', Str ''mock-trace-id'')])],
            calls = [Call ''next'' [], Call ''getTraceId'' [Obj mockCtx],
                     Call ''instrumentation''
                       [boom,
                        Obj (mockCtx @
                          [(''status'', Num (Fin 403)),
                           (''body'', Obj [(''prop'', Str ''additional prop''),
                                           (''message'', Str ''boom''),
                                           (''errorCode'', Num (Fin 7)),
                                           (''traceId'', Str ''mock-trace-id'')])]),
                        Num (Fin 403), Num (Fin 7)],
                     Apply ''logger.error'' (HostFn ''error'')
                       [Obj [(''errorCode'', Num (Fin 7)), (''statusCode'', Num (Fin 403))],
                        Str ''boom'']]\<rparr>)"
    unfolding run
    by (simp add: or_default_def invoke_def logError_callback_def arg_def andThen_def
        logError_def read_def get_prop_def call_def ret_def js_ge_def
        boom_def mockCtx_def mockLogger_def)
  with h1 h2 h3 h4 show ?thesis by simp
qed

text \<open>
  C5. For any dependencies, injected or default, and any continuation: let the
  continuation throw a failure \<open>e\<close> that has properties and let \<^verbatim>\<open>getTraceId\<close>
  return. Then the stage sets \<^verbatim>\<open>ctx.status\<close> and \<^verbatim>\<open>ctx.body\<close>, records one call of
  the instrumentation with \<^verbatim>\<open>(e, ctx, status, errorCode)\<close>, the context passed
  carrying status and body, and runs the instrumentation once on that request. What
  the stage then yields is what that run yields: if the instrumentation returns, the
  stage returns \<^verbatim>\<open>undefined\<close> (the failure \<open>e\<close> is absorbed, not thrown again); if
  it throws, the stage throws that value; the request is as the instrumentation left
  it, so status and body stay as set when the instrumentation leaves the context
  alone. An instrumentation of the environment adds no call of its own, so the
  instrumentation call is the only one the stage adds. The default instrumentation,
  with a context whose \<^verbatim>\<open>state.logger.error\<close> is a function, returns and leaves
  the context alone: the stage returns \<^verbatim>\<open>undefined\<close> with status and body set.
\<close>

theorem errorHandler_absorbs_failure:
  assumes "invoke ''next'' next [] w = (Inl e, w1)"
    and "e \<noteq> Undefined" and "e \<noteq> Null"
    and "invoke ''getTraceId'' (or_default (getTraceId deps) default_getTraceId)
           [Obj (ctx w1)] w1 = (Inr traceId, w2)"
  shows "let status = first_truthy [js_prop e ''statusCode''] (Num (Fin 500));
             errorCode = first_truthy [js_prop e ''code''] (Num (Fin 0));
             message = first_truthy [js_prop e ''message''] (Str ''Internal server error'');
             body = AList.update ''traceId'' traceId (AList.update ''errorCode'' errorCode
                      (AList.update ''message'' message (spread (js_prop e ''body''))));
             c3 = AList.update ''body'' (Obj body) (AList.update ''status'' status (ctx w2));
             args = [e, Obj c3, status, errorCode];
             handed = \<lparr>ctx = c3, calls = calls w2 @ [Call ''instrumentation'' args]\<rparr>;
             ran = or_default (instrumentation deps) (logError_callback conv) args handed;
             result = errorHandler conv deps next w
         in result = ((case fst ran of Inl x \<Rightarrow> Inl x | Inr v \<Rightarrow> Inr Undefined), snd ran)
          \<and> obj_get (ctx handed) ''status'' = status
          \<and> obj_get (ctx handed) ''body'' = Obj body
          \<and> (ctx (snd ran) = c3 \<longrightarrow>
                obj_get (ctx (snd result)) ''status'' = status
                \<and> obj_get (ctx (snd result)) ''body'' = Obj body)
          \<and> (\<forall>ins. instrumentation deps = Some (ext ins) \<longrightarrow>
                result = ((case fst (ins args c3) of Inl x \<Rightarrow> Inl x | Inr v \<Rightarrow> Inr Undefined),
                          \<lparr>ctx = snd (ins args c3),
                           calls = calls w2 @ [Call ''instrumentation'' args]\<rparr>))
          \<and> (instrumentation deps = None
               \<and> callable (js_prop (js_prop (obj_get c3 ''state'') ''logger'') ''error'') \<longrightarrow>
                fst result = Inr Undefined \<and> ctx (snd result) = c3)"
proof -
  let ?status = "first_truthy [js_prop e ''statusCode''] (Num (Fin 500))"
  let ?errorCode = "first_truthy [js_prop e ''code''] (Num (Fin 0))"
  let ?message = "first_truthy [js_prop e ''message''] (Str ''Internal server error'')"
  let ?body = "AList.update ''traceId'' traceId (AList.update ''errorCode'' ?errorCode
                 (AList.update ''message'' ?message (spread (js_prop e ''body''))))"
  let ?c3 = "AList.update ''body'' (Obj ?body) (AList.update ''status'' ?status (ctx w2))"
  let ?args = "[e, Obj ?c3, ?status, ?errorCode]"
  let ?handed = "\<lparr>ctx = ?c3, calls = calls w2 @ [Call ''instrumentation'' ?args]\<rparr>"
  let ?I = "or_default (instrumentation deps) (logError_callback conv)"
  have h: "w2\<lparr>ctx := ?c3, calls := calls w2 @ [Call ''instrumentation'' ?args]\<rparr> = ?handed"
    by simp
  have run: "errorHandler conv deps next w
               = ((case fst (?I ?args ?handed) of Inl x \<Rightarrow> Inl x | Inr v \<Rightarrow> Inr Undefined),
                  snd (?I ?args ?handed))"
    unfolding errorHandler_catch[OF assms, of conv] Let_def
    by (simp add: andThen_def invoke_def h ret_def split: prod.splits sum.splits
        del: first_truthy.simps)
  have env: "?I ?args ?handed
               = (fst (ins ?args ?c3),
                  \<lparr>ctx = snd (ins ?args ?c3),
                   calls = calls w2 @ [Call ''instrumentation'' ?args]\<rparr>)"
    if "instrumentation deps = Some (ext ins)" for ins
    using that by (simp add: or_default_def ext_def split: prod.splits)
  have dflt: "fst (?I ?args ?handed) = Inr Undefined \<and> ctx (snd (?I ?args ?handed)) = ?c3"
    if "instrumentation deps = None"
      and "callable (js_prop (js_prop (obj_get ?c3 ''state'') ''logger'') ''error'')"
  proof -
    have c: "callable (js_prop (js_prop (js_prop (Obj ?c3) ''state'') ''logger'') ''error'')"
      using that(2) by simp
    have "?I ?args ?handed = logError conv e (Obj ?c3) ?status ?errorCode ?handed"
      using that(1) by (simp add: or_default_def logError_callback_def arg_def)
    then show ?thesis
      unfolding logError_run[OF assms(2,3) c] by simp
  qed
  show ?thesis
    unfolding Let_def run
    using env dflt
    by (auto simp del: first_truthy.simps)
qed

text \<open>
  The theorem at the failure \<open>boom\<close> on the mock context, once with no dependencies
  injected (the default \<^verbatim>\<open>logError\<close> logs and the stage returns \<^verbatim>\<open>undefined\<close>)
  and once with an injected instrumentation that throws (the stage throws that value);
  status and body are set in both runs.
\<close>

theorem errorHandler_absorbs_failure_witness:
  "invoke ''next'' (ext (rejects boom)) [] \<lparr>ctx = mockCtx, calls = []\<rparr>
     = (Inl boom, \<lparr>ctx = mockCtx, calls = [Call ''next'' []]\<rparr>)
   \<and> boom \<noteq> Undefined \<and> boom \<noteq> Null
   \<and> invoke ''getTraceId''
        (or_default (getTraceId \<lparr>getTraceId = None, instrumentation = None\<rparr>) default_getTraceId)
        [Obj mockCtx] \<lparr>ctx = mockCtx, calls = [Call ''next'' []]\<rparr>
     = (Inr (Str ''mock-trace-id''),
        \<lparr>ctx = mockCtx, calls = [Call ''next'' [], Call ''getTraceId'' [Obj mockCtx]]\<rparr>)
   \<and> errorHandler nan_conversion \<lparr>getTraceId = None, instrumentation = None\<rparr>
        (ext (rejects boom)) \<lparr>ctx = mockCtx, calls = []\<rparr>
      = (Inr Undefined,
         \<lparr>ctx = mockCtx @
            [(''status'', Num (Fin 403)),
             (''body'', Obj [(''prop'', Str ''additional prop''), (''message'', Str ''boom''),
                             (''errorCode'', Num (Fin 7)), (''traceId'', Str ''mock-trace-id'')])],
          calls = [Call ''next'' [], Call ''getTraceId'' [Obj mockCtx],
                   Call ''instrumentation''
                     [boom,
                      Obj (mockCtx @
                        [(''status'', Num (Fin 403)),
                         (''body'', Obj [(''prop'', Str ''additional prop''),
                                         (''message'', Str ''boom''),
                                         (''errorCode'', Num (Fin 7)),
                                         (''traceId'', Str ''mock-trace-id'')])]),
                      Num (Fin 403), Num (Fin 7)],
                   Apply ''logger.error'' (HostFn ''error'')
                     [Obj [(''errorCode'', Num (Fin 7)), (''statusCode'', Num (Fin 403))],
                      Str ''boom'']]\<rparr>)
   \<and> invoke ''getTraceId''
        (or_default (getTraceId \<lparr>getTraceId = None,
                                 instrumentation = Some (ext (rejects (Str ''log sink down'')))\<rparr>)
           default_getTraceId)
        [Obj mockCtx] \<lparr>ctx = mockCtx, calls = [Call ''next'' []]\<rparr>
     = (Inr (Str ''mock-trace-id''),
        \<lparr>ctx = mockCtx, calls = [Call ''next'' [], Call ''getTraceId'' [Obj mockCtx]]\<rparr>)
   \<and> errorHandler nan_conversion
        \<lparr>getTraceId = None, instrumentation = Some (ext (rejects (Str ''log sink down'')))\<rparr>
        (ext (rejects boom)) \<lparr>ctx = mockCtx, calls = []\<rparr>
      = (Inl (Str ''log sink down''),
         \<lparr>ctx = mockCtx @
            [(''status'', Num (Fin 403)),
             (''body'', Obj [(''prop'', Str ''additional prop''), (''message'', Str ''boom''),
                             (''errorCode'', Num (Fin 7)), (''traceId'', Str ''mock-trace-id'')])],
          calls = [Call ''next'' [], Call ''getTraceId'' [Obj mockCtx],
                   Call ''instrumentation''
                     [boom,
                      Obj (mockCtx @
                        [(''status'', Num (Fin 403)),
                         (''body'', Obj [(''prop'', Str ''additional prop''),
                                         (''message'', Str ''boom''),
                                         (''errorCode'', Num (Fin 7)),
                                         (''traceId'', Str ''mock-trace-id'')])]),
                      Num (Fin 403), Num (Fin 7)]]\<rparr>)"
proof -
  let ?none = "\<lparr>getTraceId = None, instrumentation = None\<rparr>"
  let ?down = "\<lparr>getTraceId = None,
                instrumentation = Some (ext (rejects (Str ''log sink down'')))\<rparr>"
  let ?w1 = "\<lparr>ctx = mockCtx, calls = [Call ''next'' []]\<rparr>"
  let ?w2 = "\<lparr>ctx = mockCtx, calls = [Call ''next'' [], Call ''getTraceId'' [Obj mockCtx]]\<rparr>"
  have h1: "invoke ''next'' (ext (rejects boom)) [] \<lparr>ctx = mockCtx, calls = []\<rparr> = (Inl boom, ?w1)"
    by (simp add: invoke_ext rejects_def)
  have h2: "boom \<noteq> Undefined" and h3: "boom \<noteq> Null"
    by (simp_all add: boom_def)
  have g: "invoke ''getTraceId'' default_getTraceId [Obj (ctx ?w1)] ?w1
             = (Inr (Str ''mock-trace-id''), ?w2)"
    by (simp add: invoke_def default_getTraceId_def arg_def andThen_apply
        read_def get_prop_def mockCtx_def)
  have h4: "invoke ''getTraceId'' (or_default (getTraceId ?none) default_getTraceId)
              [Obj (ctx ?w1)] ?w1 = (Inr (Str ''mock-trace-id''), ?w2)"
    using g by (simp add: or_default_def)
  have h5: "invoke ''getTraceId'' (or_default (getTraceId ?down) default_getTraceId)
              [Obj (ctx ?w1)] ?w1 = (Inr (Str ''mock-trace-id''), ?w2)"
    using g by (simp add: or_default_def)
  note a = errorHandler_absorbs_failure[OF h1 h2 h3 h4, where conv=nan_conversion,
             unfolded Let_def, THEN conjunct1]
  note b = errorHandler_absorbs_failure[OF h1 h2 h3 h5, where conv=nan_conversion,
             unfolded Let_def, THEN conjunct1]
  have ra: "errorHandler nan_conversion ?none (ext (rejects boom)) \<lparr>ctx = mockCtx, calls = []\<rparr>
      = (Inr Undefined,
         \<lparr>ctx = mockCtx @
            [(''status'', Num (Fin 403)),
             (''body'', Obj [(''prop'', Str ''additional prop''), (''message'', Str ''boom''),
                             (''errorCode'', Num (Fin 7)), (''traceId'', Str ''mock-trace-id'')])],
          calls = [Call ''next'' [], Call ''getTraceId'' [Obj mockCtx],
                   Call ''instrumentation''
                     [boom,
                      Obj (mockCtx @
                        [(''status'', Num (Fin 403)),
                         (''body'', Obj [(''prop'', Str ''additional prop''),
                                         (''message'', Str ''boom''),
                                         (''errorCode'', Num (Fin 7)),
                                         (''traceId'', Str ''mock-trace-id'')])]),
                      Num (Fin 403), Num (Fin 7)],
                   Apply ''logger.error'' (HostFn ''error'')
                     [Obj [(''errorCode'', Num (Fin 7)), (''statusCode'', Num (Fin 403))],
                      Str ''boom'']]\<rparr>)"
    unfolding a
    by (simp add: or_default_def logError_callback_def arg_def andThen_def
        logError_def read_def get_prop_def call_def ret_def js_ge_def
        boom_def mockCtx_def mockLogger_def)
  have rb: "errorHandler nan_conversion ?down (ext (rejects boom)) \<lparr>ctx = mockCtx, calls = []\<rparr>
      = (Inl (Str ''log sink down''),
         \<lparr>ctx = mockCtx @
            [(''status'', Num (Fin 403)),
             (''body'', Obj [(''prop'', Str ''additional prop''), (''message'', Str ''boom''),
                             (''errorCode'', Num (Fin 7)), (''traceId'', Str ''mock-trace-id'')])],
          calls = [Call ''next'' [], Call ''getTraceId'' [Obj mockCtx],
                   Call ''instrumentation''
                     [boom,
                      Obj (mockCtx @
                        [(''status'', Num (Fin 403)),
                         (''body'', Obj [(''prop'', Str ''additional prop''),
                                         (''message'', Str ''boom''),
                                         (''errorCode'', Num (Fin 7)),
                                         (''traceId'', Str ''mock-trace-id'')])]),
                      Num (Fin 403), Num (Fin 7)]]\<rparr>)"
    unfolding b
    by (simp add: or_default_def ext_def rejects_def boom_def mockCtx_def)
  from h1 h2 h3 h4 h5 ra rb show ?thesis by simp
qed

text \<open>
  C3. For every failure \<open>e\<close> that has properties: \<^verbatim>\<open>setErrorResponse\<close> (with a
  usable logger) leaves in \<^verbatim>\<open>ctx.status\<close> the first truthy of \<^verbatim>\<open>e.statusCode\<close>,
  \<^verbatim>\<open>e.status\<close>, \<^verbatim>\<open>e.code\<close>, else 500; the error stage, when the continuation throws
  \<open>e\<close>, \<^verbatim>\<open>getTraceId\<close> returns and the instrumentation does not overwrite
  \<^verbatim>\<open>ctx.status\<close>, leaves \<^verbatim>\<open>e.statusCode\<close> if truthy, else 500. Hence for a falsy
  \<^verbatim>\<open>statusCode\<close> and a truthy \<^verbatim>\<open>status\<close> the stage yields 500 and the formatter
  yields \<^verbatim>\<open>e.status\<close>.
\<close>

theorem status_resolution_differs:
  assumes "e \<noteq> Undefined" and "e \<noteq> Null" and "usable_logger lg"
    and "invoke ''next'' next [] w = (Inl e, w1)"
    and "invoke ''getTraceId'' (or_default (getTraceId deps) default_getTraceId)
           [Obj (ctx w1)] w1 = (Inr traceId, w2)"
    and "\<And>args w'. obj_get (ctx (snd (or_default (instrumentation deps)
                        (logError_callback conv) args w'))) ''status''
                    = obj_get (ctx w') ''status''"
  shows "let statusCode = js_prop e ''statusCode'';
             formatted = obj_get (ctx (snd (setErrorResponse e lg w0))) ''status'';
             handled = obj_get (ctx (snd (errorHandler conv deps next w))) ''status''
         in formatted = first_truthy [statusCode, js_prop e ''status'', js_prop e ''code'']
                          (Num (Fin 500))
          \<and> handled = first_truthy [statusCode] (Num (Fin 500))
          \<and> (\<not> truthy statusCode \<and> truthy (js_prop e ''status'') \<longrightarrow>
                 handled = Num (Fin 500) \<and> formatted = js_prop e ''status'')"
proof -
  have f: "obj_get (ctx (snd (setErrorResponse e lg w0))) ''status''
             = first_truthy [js_prop e ''statusCode'', js_prop e ''status'', js_prop e ''code'']
                 (Num (Fin 500))"
    by (simp add: setErrorResponse_run[OF assms(1-3)] Let_def del: first_truthy.simps)
  have h: "obj_get (ctx (snd (errorHandler conv deps next w))) ''status''
             = first_truthy [js_prop e ''statusCode''] (Num (Fin 500))"
    unfolding errorHandler_catch[OF assms(4) assms(1,2) assms(5)] Let_def andThen_ret_snd
    by (simp add: invoke_def assms(6) del: first_truthy.simps)
  show ?thesis
    unfolding Let_def f h by simp
qed

text \<open>
  The theorem at the failure \<open>not_found\<close> (no \<^verbatim>\<open>statusCode\<close>, \<^verbatim>\<open>status\<close> 404),
  with the stage's default dependencies on the mock context: the formatter yields 404,
  the stage 500.
\<close>

theorem status_resolution_differs_witness:
  "not_found \<noteq> Undefined \<and> not_found \<noteq> Null \<and> usable_logger Undefined
   \<and> invoke ''next'' (ext (rejects not_found)) [] \<lparr>ctx = mockCtx, calls = []\<rparr>
     = (Inl not_found, \<lparr>ctx = mockCtx, calls = [Call ''next'' []]\<rparr>)
   \<and> invoke ''getTraceId''
        (or_default (getTraceId \<lparr>getTraceId = None, instrumentation = None\<rparr>) default_getTraceId)
        [Obj mockCtx] \<lparr>ctx = mockCtx, calls = [Call ''next'' []]\<rparr>
     = (Inr (Str ''mock-trace-id''),
        \<lparr>ctx = mockCtx, calls = [Call ''next'' [], Call ''getTraceId'' [Obj mockCtx]]\<rparr>)
   \<and> (\<forall>args w'. obj_get (ctx (snd (or_default
            (instrumentation \<lparr>getTraceId = None, instrumentation = None\<rparr>)
            (logError_callback nan_conversion) args w'))) ''status''
          = obj_get (ctx w') ''status'')
   \<and> \<not> truthy (js_prop not_found ''statusCode'') \<and> truthy (js_prop not_found ''status'')
   \<and> obj_get (ctx (snd (setErrorResponse not_found Undefined \<lparr>ctx = [], calls = []\<rparr>)))
        ''status'' = Num (Fin 404)
   \<and> obj_get (ctx (snd (errorHandler nan_conversion \<lparr>getTraceId = None, instrumentation = None\<rparr>
          (ext (rejects not_found)) \<lparr>ctx = mockCtx, calls = []\<rparr>))) ''status'' = Num (Fin 500)"
proof -
  have h1: "not_found \<noteq> Undefined" and h2: "not_found \<noteq> Null"
    by (simp_all add: not_found_def)
  have h3: "usable_logger Undefined" by (simp add: usable_logger_def)
  have h4: "invoke ''next'' (ext (rejects not_found)) [] \<lparr>ctx = mockCtx, calls = []\<rparr>
              = (Inl not_found, \<lparr>ctx = mockCtx, calls = [Call ''next'' []]\<rparr>)"
    by (simp add: invoke_ext rejects_def)
  have h5: "invoke ''getTraceId''
        (or_default (getTraceId \<lparr>getTraceId = None, instrumentation = None\<rparr>) default_getTraceId)
        [Obj (ctx \<lparr>ctx = mockCtx, calls = [Call ''next'' []]\<rparr>)]
        \<lparr>ctx = mockCtx, calls = [Call ''next'' []]\<rparr>
     = (Inr (Str ''mock-trace-id''),
        \<lparr>ctx = mockCtx, calls = [Call ''next'' [], Call ''getTraceId'' [Obj mockCtx]]\<rparr>)"
    by (simp add: invoke_def or_default_def default_getTraceId_def arg_def andThen_apply
        read_def get_prop_def mockCtx_def)
  have h6: "obj_get (ctx (snd (or_default
            (instrumentation \<lparr>getTraceId = None, instrumentation = None\<rparr>)
            (logError_callback nan_conversion) args w'))) ''status''
          = obj_get (ctx w') ''status''" for args w'
    by (simp add: or_default_def logError_callback_def logError_keeps_ctx)
  have t: "\<not> truthy (js_prop not_found ''statusCode'')" "truthy (js_prop not_found ''status'')"
    by (simp_all add: not_found_def)
  from status_resolution_differs[OF h1 h2 h3 h4 h5 h6, of "\<lparr>ctx = [], calls = []\<rparr>"] t
  have "obj_get (ctx (snd (setErrorResponse not_found Undefined \<lparr>ctx = [], calls = []\<rparr>)))
        ''status'' = Num (Fin 404)
     \<and> obj_get (ctx (snd (errorHandler nan_conversion \<lparr>getTraceId = None, instrumentation = None\<rparr>
          (ext (rejects not_found)) \<lparr>ctx = mockCtx, calls = []\<rparr>))) ''status'' = Num (Fin 500)"
    by (simp add: Let_def not_found_def)
  with h1 h2 h3 h4 h5 h6 t show ?thesis by simp
qed

section \<open>The response adapter \<^verbatim>\<open>useReturnValue\<close>\<close>




section \<open>The stage of \<^verbatim>\<open>requestProfiler\<close>\<close>

text \<open>
  The stage once \<^verbatim>\<open>requestStarted\<close>, the continuation and \<^verbatim>\<open>requestFinished\<close>
  have returned: it is the run of one of the two outcome callbacks, chosen by
  \<^verbatim>\<open>ctx.status >= 400\<close>, on the request as \<^verbatim>\<open>requestFinished\<close> left it.
\<close>

lemma requestProfiler_run:
  assumes "invoke ''requestStarted'' (requestStarted cbs) [Obj (ctx w)] w = (Inr v1, w1)"
    and "invoke ''next'' next [] w1 = (Inr v2, w2)"
    and "invoke ''requestFinished'' (requestFinished cbs) [Obj (ctx w2)] w2 = (Inr v3, w3)"
  shows "requestProfiler conv cbs next w =
     (let ran = (if js_ge conv (obj_get (ctx w3) ''status'') (Fin 400)
                 then invoke ''requestFailed'' (requestFailed cbs) [Obj (ctx w3)] w3
                 else invoke ''requestSucceeded'' (requestSucceeded cbs) [Obj (ctx w3)] w3)
      in ((case fst ran of Inl x \<Rightarrow> Inl x | Inr v \<Rightarrow> Inr Undefined), snd ran))"
  using assms
  by (simp add: requestProfiler_def andThen_apply[of "invoke _ _ _"] Let_def ret_apply
      split: prod.splits sum.splits)

text \<open>
  C7 (amended). The claim that \<^verbatim>\<open>requestSucceeded\<close> fires iff the final status is
  below 400 fails for a status that is not a number, and nothing fires when
  \<^verbatim>\<open>requestStarted\<close> or \<^verbatim>\<open>requestFinished\<close> throws. What holds, for any four
  callbacks and any continuation: in every run in which \<^verbatim>\<open>requestStarted\<close>, the
  continuation and \<^verbatim>\<open>requestFinished\<close> return, in this order, the stage then invokes
  exactly one of \<^verbatim>\<open>requestFailed\<close> and \<^verbatim>\<open>requestSucceeded\<close>, with the context, on
  the request as \<^verbatim>\<open>requestFinished\<close> left it, and what the stage yields is what that
  one run yields (\<^verbatim>\<open>undefined\<close> when it returns, its failure when it throws, the
  request as it leaves it). It is \<^verbatim>\<open>requestFailed\<close> iff \<^verbatim>\<open>ctx.status >= 400\<close> holds
  there and \<^verbatim>\<open>requestSucceeded\<close> iff it does not. For a status whose numeric value
  is not NaN, it does not hold iff \<^verbatim>\<open>ctx.status < 400\<close>.
\<close>

theorem requestProfiler_outcome:
  assumes "invoke ''requestStarted'' (requestStarted cbs) [Obj (ctx w)] w = (Inr v1, w1)"
    and "invoke ''next'' next [] w1 = (Inr v2, w2)"
    and "invoke ''requestFinished'' (requestFinished cbs) [Obj (ctx w2)] w2 = (Inr v3, w3)"
  shows "let status = obj_get (ctx w3) ''status'';
             failed = js_ge conv status (Fin 400);
             ran = (if failed
                    then invoke ''requestFailed'' (requestFailed cbs) [Obj (ctx w3)] w3
                    else invoke ''requestSucceeded'' (requestSucceeded cbs) [Obj (ctx w3)] w3)
         in requestProfiler conv cbs next w
              = ((case fst ran of Inl x \<Rightarrow> Inl x | Inr v \<Rightarrow> Inr Undefined), snd ran)
          \<and> (to_number conv status \<noteq> NaN \<longrightarrow>
                (\<not> failed \<longleftrightarrow> js_lt conv status (Fin 400)))"
proof -
  have "num_lt n (Fin 400) = Some True \<or> num_lt n (Fin 400) = Some False" if "n \<noteq> NaN" for n
    using that by (cases n) auto
  then have "to_number conv (obj_get (ctx w3) ''status'') \<noteq> NaN \<longrightarrow>
      (\<not> js_ge conv (obj_get (ctx w3) ''status'') (Fin 400)
         \<longleftrightarrow> js_lt conv (obj_get (ctx w3) ''status'') (Fin 400))"
    by (auto simp add: js_ge_def js_lt_def)
  then show ?thesis
    using requestProfiler_run[OF assms, of conv]
    by (simp add: Let_def)
qed

text \<open>
  The theorem at a context with status 500 and outcome callbacks that mark the context:
  the fourth call is \<^verbatim>\<open>requestFailed\<close>, and it has run (the context carries its
  mark, and not the other).
\<close>

theorem requestProfiler_outcome_witness:
  "invoke ''requestStarted''
      (requestStarted \<lparr>requestStarted = ext (resolves Undefined),
                       requestFinished = ext (resolves Undefined),
                       requestSucceeded = ext (marks ''succeeded''),
                       requestFailed = ext (marks ''failed'')\<rparr>)
      [Obj [(''status'', Num (Fin 500))]] \<lparr>ctx = [(''status'', Num (Fin 500))], calls = []\<rparr>
     = (Inr Undefined,
        \<lparr>ctx = [(''status'', Num (Fin 500))],
         calls = [Call ''requestStarted'' [Obj [(''status'', Num (Fin 500))]]]\<rparr>)
   \<and> invoke ''next'' (ext (resolves Undefined)) []
        \<lparr>ctx = [(''status'', Num (Fin 500))],
         calls = [Call ''requestStarted'' [Obj [(''status'', Num (Fin 500))]]]\<rparr>
     = (Inr Undefined,
        \<lparr>ctx = [(''status'', Num (Fin 500))],
         calls = [Call ''requestStarted'' [Obj [(''status'', Num (Fin 500))]],
                  Call ''next'' []]\<rparr>)
   \<and> invoke ''requestFinished''
      (requestFinished \<lparr>requestStarted = ext (resolves Undefined),
                        requestFinished = ext (resolves Undefined),
                        requestSucceeded = ext (marks ''succeeded''),
                        requestFailed = ext (marks ''failed'')\<rparr>)
      [Obj [(''status'', Num (Fin 500))]]
      \<lparr>ctx = [(''status'', Num (Fin 500))],
       calls = [Call ''requestStarted'' [Obj [(''status'', Num (Fin 500))]], Call ''next'' []]\<rparr>
     = (Inr Undefined,
        \<lparr>ctx = [(''status'', Num (Fin 500))],
         calls = [Call ''requestStarted'' [Obj [(''status'', Num (Fin 500))]], Call ''next'' [],
                  Call ''requestFinished'' [Obj [(''status'', Num (Fin 500))]]]\<rparr>)
   \<and> requestProfiler nan_conversion
        \<lparr>requestStarted = ext (resolves Undefined), requestFinished = ext (resolves Undefined),
         requestSucceeded = ext (marks ''succeeded''), requestFailed = ext (marks ''failed'')\<rparr>
        (ext (resolves Undefined)) \<lparr>ctx = [(''status'', Num (Fin 500))], calls = []\<rparr>
     = (Inr Undefined,
        \<lparr>ctx = [(''status'', Num (Fin 500)), (''failed'', Bool True)],
         calls = [Call ''requestStarted'' [Obj [(''status'', Num (Fin 500))]], Call ''next'' [],
                  Call ''requestFinished'' [Obj [(''status'', Num (Fin 500))]],
                  Call ''requestFailed'' [Obj [(''status'', Num (Fin 500))]]]\<rparr>)"
proof -
  let ?cbs = "\<lparr>requestStarted = ext (resolves Undefined),
               requestFinished = ext (resolves Undefined),
               requestSucceeded = ext (marks ''succeeded''),
               requestFailed = ext (marks ''failed'')\<rparr>"
  let ?c = "[(''status'', Num (Fin 500))]"
  let ?w = "\<lparr>ctx = ?c, calls = []\<rparr>"
  let ?w1 = "\<lparr>ctx = ?c, calls = [Call ''requestStarted'' [Obj ?c]]\<rparr>"
  let ?w2 = "\<lparr>ctx = ?c, calls = [Call ''requestStarted'' [Obj ?c], Call ''next'' []]\<rparr>"
  let ?w3 = "\<lparr>ctx = ?c, calls = [Call ''requestStarted'' [Obj ?c], Call ''next'' [],
                                   Call ''requestFinished'' [Obj ?c]]\<rparr>"
  have h1: "invoke ''requestStarted'' (requestStarted ?cbs) [Obj (ctx ?w)] ?w
              = (Inr Undefined, ?w1)"
    and h2: "invoke ''next'' (ext (resolves Undefined)) [] ?w1 = (Inr Undefined, ?w2)"
    and h3: "invoke ''requestFinished'' (requestFinished ?cbs) [Obj (ctx ?w2)] ?w2
              = (Inr Undefined, ?w3)"
    by (simp_all add: invoke_ext resolves_def)
  note a = requestProfiler_outcome[OF h1 h2 h3, where conv=nan_conversion, unfolded Let_def,
             THEN conjunct1]
  have r: "requestProfiler nan_conversion ?cbs (ext (resolves Undefined)) ?w
     = (Inr Undefined,
        \<lparr>ctx = [(''status'', Num (Fin 500)), (''failed'', Bool True)],
         calls = [Call ''requestStarted'' [Obj ?c], Call ''next'' [],
                  Call ''requestFinished'' [Obj ?c], Call ''requestFailed'' [Obj ?c]]\<rparr>)"
    unfolding a by (simp add: js_ge_def invoke_ext marks_def)
  from h1 h2 h3 r show ?thesis by simp
qed

text \<open>
  The claim as stated fails twice. On a context with no status (the tests' own
  \<^verbatim>\<open>mockCtx()\<close>) \<^verbatim>\<open>requestSucceeded\<close> fires although \<^verbatim>\<open>ctx.status < 400\<close> is
  false. And when \<^verbatim>\<open>requestFinished\<close> throws after the continuation has succeeded,
  neither \<^verbatim>\<open>requestFailed\<close> nor \<^verbatim>\<open>requestSucceeded\<close> is called.
\<close>

theorem requestProfiler_outcome_counterexample:
  "calls (snd (requestProfiler nan_conversion
          \<lparr>requestStarted = ext (resolves Undefined), requestFinished = ext (resolves Undefined),
           requestSucceeded = ext (resolves Undefined), requestFailed = ext (resolves Undefined)\<rparr>
          (ext (resolves Undefined)) \<lparr>ctx = [], calls = []\<rparr>))
     = [Call ''requestStarted'' [Obj []], Call ''next'' [], Call ''requestFinished'' [Obj []],
        Call ''requestSucceeded'' [Obj []]]
   \<and> \<not> js_lt nan_conversion (obj_get [] ''status'') (Fin 400)
   \<and> requestProfiler nan_conversion
          \<lparr>requestStarted = ext (resolves Undefined), requestFinished = ext (rejects TypeError),
           requestSucceeded = ext (resolves Undefined), requestFailed = ext (resolves Undefined)\<rparr>
          (ext (resolves Undefined)) \<lparr>ctx = [(''status'', Num (Fin 200))], calls = []\<rparr>
     = (Inl TypeError,
        \<lparr>ctx = [(''status'', Num (Fin 200))],
         calls = [Call ''requestStarted'' [Obj [(''status'', Num (Fin 200))]], Call ''next'' [],
                  Call ''requestFinished'' [Obj [(''status'', Num (Fin 200))]]]\<rparr>)"
  by (simp add: requestProfiler_def invoke_ext andThen_apply[of "invoke _ _ _"]
      resolves_def rejects_def js_ge_def js_lt_def ret_apply)



text \<open>
  C10. Success is the default branch. For any four callbacks and any continuation, in
  every run in which \<^verbatim>\<open>requestStarted\<close>, the continuation and
  \<^verbatim>\<open>requestFinished\<close> return: if \<^verbatim>\<open>ctx.status >= 400\<close> does not hold for the
  final status, the stage invokes \<^verbatim>\<open>requestSucceeded\<close> with the context, on the
  request as \<^verbatim>\<open>requestFinished\<close> left it, and what the stage yields is what that run
  yields; \<^verbatim>\<open>requestFailed\<close> is not invoked. That is so for a status that is
  \<^verbatim>\<open>undefined\<close> or whose numeric value is NaN: for it both \<^verbatim>\<open>ctx.status >= 400\<close>
  and \<^verbatim>\<open>ctx.status < 400\<close> are false.
\<close>

theorem requestProfiler_success_is_default:
  assumes "invoke ''requestStarted'' (requestStarted cbs) [Obj (ctx w)] w = (Inr v1, w1)"
    and "invoke ''next'' next [] w1 = (Inr v2, w2)"
    and "invoke ''requestFinished'' (requestFinished cbs) [Obj (ctx w2)] w2 = (Inr v3, w3)"
  shows "let status = obj_get (ctx w3) ''status'';
             ran = invoke ''requestSucceeded'' (requestSucceeded cbs) [Obj (ctx w3)] w3;
             succeeded = ((case fst ran of Inl x \<Rightarrow> Inl x | Inr v \<Rightarrow> Inr Undefined), snd ran)
         in (\<not> js_ge conv status (Fin 400) \<longrightarrow> requestProfiler conv cbs next w = succeeded)
          \<and> (status = Undefined \<or> to_number conv status = NaN \<longrightarrow>
                \<not> js_ge conv status (Fin 400) \<and> \<not> js_lt conv status (Fin 400)
                \<and> requestProfiler conv cbs next w = succeeded)"
  using requestProfiler_run[OF assms, of conv]
  by (auto simp add: Let_def js_ge_def js_lt_def)

text \<open>
  The theorem at a context with no status and outcome callbacks that mark the context:
  the fourth call is \<^verbatim>\<open>requestSucceeded\<close>, and it has run.
\<close>

theorem requestProfiler_success_is_default_witness:
  "invoke ''requestStarted''
      (requestStarted \<lparr>requestStarted = ext (resolves Undefined),
                       requestFinished = ext (resolves Undefined),
                       requestSucceeded = ext (marks ''succeeded''),
                       requestFailed = ext (marks ''failed'')\<rparr>)
      [Obj []] \<lparr>ctx = [], calls = []\<rparr>
     = (Inr Undefined, \<lparr>ctx = [], calls = [Call ''requestStarted'' [Obj []]]\<rparr>)
   \<and> invoke ''next'' (ext (resolves Undefined)) []
        \<lparr>ctx = [], calls = [Call ''requestStarted'' [Obj []]]\<rparr>
     = (Inr Undefined, \<lparr>ctx = [], calls = [Call ''requestStarted'' [Obj []], Call ''next'' []]\<rparr>)
   \<and> invoke ''requestFinished''
      (requestFinished \<lparr>requestStarted = ext (resolves Undefined),
                        requestFinished = ext (resolves Undefined),
                        requestSucceeded = ext (marks ''succeeded''),
                        requestFailed = ext (marks ''failed'')\<rparr>)
      [Obj []] \<lparr>ctx = [], calls = [Call ''requestStarted'' [Obj []], Call ''next'' []]\<rparr>
     = (Inr Undefined,
        \<lparr>ctx = [], calls = [Call ''requestStarted'' [Obj []], Call ''next'' [],
                             Call ''requestFinished'' [Obj []]]\<rparr>)
   \<and> obj_get [] ''status'' = Undefined
   \<and> \<not> js_ge nan_conversion (obj_get [] ''status'') (Fin 400)
   \<and> \<not> js_lt nan_conversion (obj_get [] ''status'') (Fin 400)
   \<and> requestProfiler nan_conversion
        \<lparr>requestStarted = ext (resolves Undefined), requestFinished = ext (resolves Undefined),
         requestSucceeded = ext (marks ''succeeded''), requestFailed = ext (marks ''failed'')\<rparr>
        (ext (resolves Undefined)) \<lparr>ctx = [], calls = []\<rparr>
     = (Inr Undefined,
        \<lparr>ctx = [(''succeeded'', Bool True)],
         calls = [Call ''requestStarted'' [Obj []], Call ''next'' [],
                  Call ''requestFinished'' [Obj []], Call ''requestSucceeded'' [Obj []]]\<rparr>)"
proof -
  let ?cbs = "\<lparr>requestStarted = ext (resolves Undefined),
               requestFinished = ext (resolves Undefined),
               requestSucceeded = ext (marks ''succeeded''),
               requestFailed = ext (marks ''failed'')\<rparr>"
  let ?w = "\<lparr>ctx = [], calls = []\<rparr>"
  let ?w1 = "\<lparr>ctx = [], calls = [Call ''requestStarted'' [Obj []]]\<rparr>"
  let ?w2 = "\<lparr>ctx = [], calls = [Call ''requestStarted'' [Obj []], Call ''next'' []]\<rparr>"
  let ?w3 = "\<lparr>ctx = [], calls = [Call ''requestStarted'' [Obj []], Call ''next'' [],
                                  Call ''requestFinished'' [Obj []]]\<rparr>"
  have h1: "invoke ''requestStarted'' (requestStarted ?cbs) [Obj (ctx ?w)] ?w
              = (Inr Undefined, ?w1)"
    and h2: "invoke ''next'' (ext (resolves Undefined)) [] ?w1 = (Inr Undefined, ?w2)"
    and h3: "invoke ''requestFinished'' (requestFinished ?cbs) [Obj (ctx ?w2)] ?w2
              = (Inr Undefined, ?w3)"
    by (simp_all add: invoke_ext resolves_def)
  have u: "obj_get (ctx ?w3) ''status'' = Undefined" by simp
  note a = requestProfiler_success_is_default[OF h1 h2 h3, where conv=nan_conversion,
             unfolded Let_def, THEN conjunct2, rule_format, OF disjI1, OF u]
  from a have r: "requestProfiler nan_conversion ?cbs (ext (resolves Undefined)) ?w
     = (Inr Undefined,
        \<lparr>ctx = [(''succeeded'', Bool True)],
         calls = [Call ''requestStarted'' [Obj []], Call ''next'' [],
                  Call ''requestFinished'' [Obj []], Call ''requestSucceeded'' [Obj []]]\<rparr>)"
    by (simp add: invoke_ext marks_def)
  from a h1 h2 h3 r show ?thesis by simp
qed

section \<open>Further properties of the error stage\<close>

text \<open>
  When the continuation returns, the error stage does nothing more: it returns
  \<^verbatim>\<open>undefined\<close>, calls neither \<^verbatim>\<open>getTraceId\<close> nor the instrumentation, and the
  request is as the continuation left it.
\<close>

theorem errorHandler_success:
  assumes "invoke ''next'' next [] w = (Inr v, w1)"
  shows "errorHandler conv deps next w = (Inr Undefined, w1)"
  using assms
  by (simp add: errorHandler_def Let_def tryCatch_def andThen_apply[of "invoke ''next'' next []"]
      ret_apply)

theorem errorHandler_success_witness:
  "invoke ''next'' (ext (resolves (Str ''done''))) [] \<lparr>ctx = mockCtx, calls = []\<rparr>
     = (Inr (Str ''done''), \<lparr>ctx = mockCtx, calls = [Call ''next'' []]\<rparr>)
   \<and> errorHandler nan_conversion \<lparr>getTraceId = None, instrumentation = None\<rparr>
        (ext (resolves (Str ''done''))) \<lparr>ctx = mockCtx, calls = []\<rparr>
      = (Inr Undefined, \<lparr>ctx = mockCtx, calls = [Call ''next'' []]\<rparr>)"
proof -
  have h: "invoke ''next'' (ext (resolves (Str ''done''))) [] \<lparr>ctx = mockCtx, calls = []\<rparr>
             = (Inr (Str ''done''), \<lparr>ctx = mockCtx, calls = [Call ''next'' []]\<rparr>)"
    by (simp add: invoke_ext resolves_def)
  from errorHandler_success[OF h, of nan_conversion
         "\<lparr>getTraceId = None, instrumentation = None\<rparr>"] h
  show ?thesis by simp
qed

text \<open>
  When the continuation throws \<^verbatim>\<open>undefined\<close> or \<^verbatim>\<open>null\<close>, reading
  \<^verbatim>\<open>e.message\<close> in the catch block throws: the stage throws a TypeError, sets neither
  status nor body and calls neither \<^verbatim>\<open>getTraceId\<close> nor the instrumentation.
\<close>

theorem errorHandler_nullish_failure:
  assumes "invoke ''next'' next [] w = (Inl e, w1)" and "e = Undefined \<or> e = Null"
  shows "errorHandler conv deps next w = (Inl TypeError, w1)"
  using assms
  by (auto simp add: errorHandler_def Let_def tryCatch_def
      andThen_apply[of "invoke ''next'' next []"] orElse_def)
     (simp_all add: throw_def)

theorem errorHandler_nullish_failure_witness:
  "invoke ''next'' (ext (rejects Undefined)) [] \<lparr>ctx = mockCtx, calls = []\<rparr>
     = (Inl Undefined, \<lparr>ctx = mockCtx, calls = [Call ''next'' []]\<rparr>)
   \<and> errorHandler nan_conversion \<lparr>getTraceId = None, instrumentation = None\<rparr>
        (ext (rejects Undefined)) \<lparr>ctx = mockCtx, calls = []\<rparr>
      = (Inl TypeError, \<lparr>ctx = mockCtx, calls = [Call ''next'' []]\<rparr>)"
proof -
  have h: "invoke ''next'' (ext (rejects Undefined)) [] \<lparr>ctx = mockCtx, calls = []\<rparr>
             = (Inl Undefined, \<lparr>ctx = mockCtx, calls = [Call ''next'' []]\<rparr>)"
    by (simp add: invoke_ext rejects_def)
  have n: "Undefined = Undefined \<or> Undefined = Null" by simp
  from errorHandler_nullish_failure[OF h n, of nan_conversion
         "\<lparr>getTraceId = None, instrumentation = None\<rparr>"] h
  show ?thesis by simp
qed

end
